theory Spec2Isabelle
  imports Complex_Main "HOL-Library.Word"
begin

unbundle bit_operations_syntax

section \<open>Data model of GPU/Common/ReplacedTexture.cpp\<close>

type_synonym u8 = "8 word"
type_synonym u16 = "16 word"
type_synonym u32 = "32 word"

datatype ReplacedImageType = ZIM | PNG | DDS | BASIS | KTX2 | INVALID

datatype ReplacementState =
  UNINITIALIZED | POPULATED | PENDING | NOT_FOUND | ACTIVE | CANCEL_INIT

datatype LoadLevelResult = LOAD_ERROR | CONTINUE | DONE

datatype DataFormat =
  UNDEFINED | R8G8B8A8_UNORM
  | BC1_RGBA_UNORM_BLOCK | BC2_UNORM_BLOCK | BC3_UNORM_BLOCK | BC7_UNORM_BLOCK
  | ETC2_R8G8B8_UNORM_BLOCK | ASTC_4x4_UNORM_BLOCK

datatype CheckAlphaResult = CHECKALPHA_FULL | CHECKALPHA_ANY

datatype ReplacedTextureAlpha = UNKNOWN | FULL | FromCheck CheckAlphaResult

text \<open>Headers as the code reads them with one \<open>Read\<close> of \<open>sizeof(header)\<close> bytes;
  only the fields the code looks at are kept.\<close>

record KTXHeader =
  pixelWidth :: u32
  pixelHeight :: u32
  levelCount :: u32
  layerCount :: u32

record DDSHeader =
  ddspf_dwFlags :: u32
  ddspf_dwFourCC :: u32
  dwWidth :: u32
  dwHeight :: u32
  dwMipMapCount :: u32

record ZimHeader =
  zim_w :: u32
  zim_h :: u32
  zim_flags :: u32

record PNGHeaderPeek =
  IsValidPNGHeader :: bool
  Width :: int
  Height :: int

record ktx2_image_level_info =
  m_orig_width :: nat
  m_orig_height :: nat
  m_total_blocks :: nat
  m_num_blocks_x :: nat

text \<open>What the library decoders (libpng, the ZIM loader, the basis transcoder) report
  for a file. They are external to the file under study, so a file carries their answers.\<close>

record png_image =
  png_width :: nat
  png_height :: nat
  png_has_alpha :: bool
  png_finish_read :: "u8 list option"
  png_alpha :: CheckAlphaResult

record zim_image =
  zi_w :: int
  zi_h :: int
  zi_pixels :: "u8 list"
  zi_alpha :: CheckAlphaResult

record vfile =
  leading :: "u8 list"
  fileSize :: nat
  ktx_header :: "KTXHeader option"
  dds_header :: "DDSHeader option"
  dds_header10 :: "u32 option"
  zim_header :: "ZimHeader option"
  png_peek :: "PNGHeaderPeek option"
  ktx_init :: bool
  ktx_is_etc1s :: bool
  ktx_is_uastc :: bool
  ktx_level_info :: "nat \<Rightarrow> ktx2_image_level_info"
  ktx_transcoded :: "nat \<Rightarrow> u8 list"
  dds_payload :: "u8 list"
  zim_read_ok :: bool
  zim_load :: "zim_image option"
  png_begin_read :: "png_image option"

record VFSBackend =
  GetFile :: "string \<Rightarrow> nat option"
  OpenFileForRead :: "nat \<Rightarrow> vfile option"

record ReplacedLevelsCache =
  data :: "u8 list list"
  cache_fmt :: DataFormat
  cache_lastUsed :: real

record ReplacementDesc =
  filenames :: "string list"
  desc_w :: int
  desc_h :: int
  newW :: int
  newH :: int
  bc123 :: bool
  bc7 :: bool
  etc2 :: bool
  astc :: bool
  logId :: string
  cache :: ReplacedLevelsCache

record ReplacedTextureLevel =
  w :: int
  h :: int
  fileRef :: "nat option"

record LimitedWaitable =
  triggered :: bool

record ReplacedTexture =
  state :: ReplacementState
  desc :: "ReplacementDesc option"
  levelData :: "ReplacedLevelsCache option"
  levels :: "ReplacedTextureLevel list"
  fmt :: DataFormat
  alphaStatus :: ReplacedTextureAlpha
  lastUsed :: real
  threadWaitable :: "LimitedWaitable option"
  tex_logId :: string

text \<open>Constants and helpers that live in headers outside the file under study
  (\<open>MAX_REPLACEMENT_MIP_LEVELS\<close>, \<open>DDPF_FOURCC\<close>, \<open>ZIM_FORMAT_MASK\<close>, \<open>ZIM_RGBA8888\<close>,
  \<open>Draw::DataFormatIsBlockCompressed\<close>) are parameters, together with the file system
  and the value an uninitialised \<open>pixelFormat\<close> happens to hold.\<close>

record env =
  vfs :: VFSBackend
  MAX_REPLACEMENT_MIP_LEVELS :: nat
  DDPF_FOURCC :: u32
  ZIM_FORMAT_MASK :: u32
  ZIM_RGBA8888 :: u32
  DataFormatIsBlockCompressed :: "DataFormat \<Rightarrow> nat option"
  uninit_pixelFormat :: DataFormat

section \<open>Format sniffing\<close>

definition MK_FOURCC :: "u8 list \<Rightarrow> u32" where
  "MK_FOURCC str =
     ucast (str ! 0) OR push_bit 8 (ucast (str ! 1)) OR push_bit 16 (ucast (str ! 2))
       OR push_bit 24 (ucast (str ! 3))"

definition bytes_ZIMG :: "u8 list" where "bytes_ZIMG = [0x5A, 0x49, 0x4D, 0x47]"
definition bytes_DDS :: "u8 list" where "bytes_DDS = [0x44, 0x44, 0x53, 0x20]"
definition bytes_KTX :: "u8 list" where "bytes_KTX = [0xAB, 0x4B, 0x54, 0x58]"
definition bytes_DX10 :: "u8 list" where "bytes_DX10 = [0x44, 0x58, 0x31, 0x30]"
definition bytes_DXT1 :: "u8 list" where "bytes_DXT1 = [0x44, 0x58, 0x54, 0x31]"
definition bytes_DXT3 :: "u8 list" where "bytes_DXT3 = [0x44, 0x58, 0x54, 0x33]"
definition bytes_DXT5 :: "u8 list" where "bytes_DXT5 = [0x44, 0x58, 0x54, 0x35]"

text \<open>\<open>IdentifyMagic\<close> on the four bytes \<open>m0 m1 m2 m3\<close>. In the \<open>sB\<close> branch a version
  below \<open>0x10\<close> falls out of the whole chain to \<open>INVALID\<close>.\<close>

definition IdentifyMagic :: "u8 \<Rightarrow> u8 \<Rightarrow> u8 \<Rightarrow> u8 \<Rightarrow> ReplacedImageType" where
  "IdentifyMagic m0 m1 m2 m3 =
     (if [m0, m1, m2, m3] = bytes_ZIMG then ZIM
      else if m0 = 0x89 \<and> [m1, m2, m3] = [0x50, 0x4E, 0x47] then PNG
      else if [m0, m1, m2, m3] = bytes_DDS then DDS
      else if m0 = 0x73 \<and> m1 = 0x42 then
        (let ver = (ucast m2 OR push_bit 8 (ucast m3) :: u16)
         in if ver \<ge> 0x10 then BASIS else INVALID)
      else if [m0, m1, m2, m3] = bytes_KTX then KTX2
      else INVALID)"

text \<open>\<open>Identify\<close>: a read of fewer than four bytes is \<open>INVALID\<close>.\<close>

definition Identify :: "vfile \<Rightarrow> ReplacedImageType" where
  "Identify f =
     (case leading f of
        [m0, m1, m2, m3] \<Rightarrow> IdentifyMagic m0 m1 m2 m3
      | _ \<Rightarrow> INVALID)"

section \<open>Loading one level\<close>

text \<open>\<open>std::vector::resize\<close> on a byte buffer and on the vector of buffers.\<close>

definition resize_bytes :: "nat \<Rightarrow> u8 list \<Rightarrow> u8 list" where
  "resize_bytes n xs = take n xs @ replicate (n - length xs) 0"

definition resize_data :: "nat \<Rightarrow> u8 list list \<Rightarrow> u8 list list" where
  "resize_data n xs = take n xs @ replicate (n - length xs) []"

text \<open>A write of \<open>src\<close> at the start of \<open>buf\<close> that never grows the buffer.\<close>

definition overwrite :: "u8 list \<Rightarrow> u8 list \<Rightarrow> u8 list" where
  "overwrite buf src = take (length buf) src @ drop (length src) buf"

text \<open>C's integer division truncates towards zero.\<close>

definition c_div :: "int \<Rightarrow> int \<Rightarrow> int" where
  "c_div a b = sgn a * sgn b * (\<bar>a\<bar> div \<bar>b\<bar>)"

text \<open>A product of two \<open>int\<close>s, which are 32 bits wide: it wraps around.\<close>

definition mul32 :: "int \<Rightarrow> int \<Rightarrow> int" where
  "mul32 a b = sint (word_of_int (a * b) :: u32)"

definition RoundUpTo4 :: "u32 \<Rightarrow> u32" where
  "RoundUpTo4 v = (v + 3) AND NOT 3"

text \<open>The first half of \<open>LoadLevelData\<close>: what the header of the sniffed container says.
  \<open>hd_pf\<close> is \<open>*pixelFormat\<close> afterwards. After a short read the header fields are
  indeterminate in the code; \<open>good\<close> is false then and they are never looked at, so they
  are 0 here.\<close>

record header_info =
  good :: bool
  hd_w :: int
  hd_h :: int
  numMips :: int
  hd_pf :: DataFormat
  ddsDX10 :: bool

definition header_KTX2 :: "vfile \<Rightarrow> DataFormat \<Rightarrow> header_info" where
  "header_KTX2 f pf =
     (case ktx_header f of
        None \<Rightarrow> \<lparr>good = False, hd_w = 0, hd_h = 0, numMips = 0, hd_pf = pf, ddsDX10 = False\<rparr>
      | Some hdr \<Rightarrow>
          \<lparr>good = (layerCount hdr \<le> 1), hd_w = sint (pixelWidth hdr),
           hd_h = sint (pixelHeight hdr), numMips = sint (levelCount hdr),
           hd_pf = pf, ddsDX10 = False\<rparr>)"

definition header_DDS :: "env \<Rightarrow> ReplacementDesc \<Rightarrow> vfile \<Rightarrow> header_info" where
  "header_DDS e d f =
     (case dds_header f of
        None \<Rightarrow>
          \<lparr>good = False, hd_w = 0, hd_h = 0, numMips = 0, hd_pf = UNDEFINED, ddsDX10 = False\<rparr>
      | Some hdr \<Rightarrow>
          (let dims = \<lparr>good = True, hd_w = sint (dwWidth hdr), hd_h = sint (dwHeight hdr),
                       numMips = sint (dwMipMapCount hdr), hd_pf = UNDEFINED,
                       ddsDX10 = False\<rparr>
           in if ddspf_dwFlags hdr AND DDPF_FOURCC e \<noteq> 0 then
                (if ddspf_dwFourCC hdr = MK_FOURCC bytes_DX10 then
                   (let format = (case dds_header10 f of None \<Rightarrow> 0 | Some x \<Rightarrow> x);
                        good10 = (dds_header10 f \<noteq> None)
                    in if format = 98 \<or> format = 99 then
                         dims\<lparr>good := good10 \<and> bc7 d, hd_pf := BC7_UNORM_BLOCK,
                              ddsDX10 := True\<rparr>
                       else dims\<lparr>good := False, ddsDX10 := True\<rparr>)
                 else
                   (let format = ddspf_dwFourCC hdr
                    in if format = MK_FOURCC bytes_DXT1 then
                         dims\<lparr>good := bc123 d, hd_pf := BC1_RGBA_UNORM_BLOCK\<rparr>
                       else if format = MK_FOURCC bytes_DXT3 then
                         dims\<lparr>good := bc123 d, hd_pf := BC2_UNORM_BLOCK\<rparr>
                       else if format = MK_FOURCC bytes_DXT5 then
                         dims\<lparr>good := bc123 d, hd_pf := BC3_UNORM_BLOCK\<rparr>
                       else dims\<lparr>good := False\<rparr>))
              else dims\<lparr>good := False\<rparr>))"

definition header_ZIM :: "env \<Rightarrow> vfile \<Rightarrow> header_info" where
  "header_ZIM e f =
     (case zim_header f of
        None \<Rightarrow>
          \<lparr>good = False, hd_w = 0, hd_h = 0, numMips = 1, hd_pf = R8G8B8A8_UNORM,
           ddsDX10 = False\<rparr>
      | Some hdr \<Rightarrow>
          \<lparr>good = (zim_flags hdr AND ZIM_FORMAT_MASK e = ZIM_RGBA8888 e),
           hd_w = sint (zim_w hdr), hd_h = sint (zim_h hdr), numMips = 1,
           hd_pf = R8G8B8A8_UNORM, ddsDX10 = False\<rparr>)"

definition header_PNG :: "vfile \<Rightarrow> header_info" where
  "header_PNG f =
     (case png_peek f of
        None \<Rightarrow>
          \<lparr>good = False, hd_w = 0, hd_h = 0, numMips = 1, hd_pf = R8G8B8A8_UNORM,
           ddsDX10 = False\<rparr>
      | Some pk \<Rightarrow>
          (if IsValidPNGHeader pk then
             \<lparr>good = True, hd_w = Width pk, hd_h = Height pk, numMips = 1,
              hd_pf = R8G8B8A8_UNORM, ddsDX10 = False\<rparr>
           else
             \<lparr>good = False, hd_w = 0, hd_h = 0, numMips = 1, hd_pf = R8G8B8A8_UNORM,
              ddsDX10 = False\<rparr>))"

definition read_header ::
  "env \<Rightarrow> ReplacementDesc \<Rightarrow> vfile \<Rightarrow> ReplacedImageType \<Rightarrow> DataFormat \<Rightarrow> header_info" where
  "read_header e d f imageType pf =
     (case imageType of
        KTX2 \<Rightarrow> header_KTX2 f pf
      | BASIS \<Rightarrow>
          \<lparr>good = False, hd_w = 0, hd_h = 0, numMips = 1, hd_pf = pf, ddsDX10 = False\<rparr>
      | DDS \<Rightarrow> header_DDS e d f
      | ZIM \<Rightarrow> header_ZIM e f
      | PNG \<Rightarrow> header_PNG f
      | INVALID \<Rightarrow>
          \<lparr>good = False, hd_w = 0, hd_h = 0, numMips = 1, hd_pf = pf, ddsDX10 = False\<rparr>)"

text \<open>The second half decodes the payload. A decoder returns \<open>None\<close> where the code
  leaves defined behaviour: an index past the end of a vector, a \<open>resize\<close> to a negative
  count, a \<open>memcpy\<close> that reads past its source.\<close>

type_synonym decoded =
  "LoadLevelResult \<times> DataFormat \<times> u8 list list \<times> ReplacedTextureLevel list \<times> ReplacedTextureAlpha"

text \<open>The loop over the mips inside one KTX2 file: \<open>out\<close> is \<open>data[mipLevel + i]\<close>, while
  the buffer that is resized is \<open>data[i]\<close>.\<close>

fun ktx_loop ::
  "vfile \<Rightarrow> nat option \<Rightarrow> nat \<Rightarrow> nat \<Rightarrow> nat \<Rightarrow> ReplacedTextureLevel \<Rightarrow> u8 list list \<Rightarrow>
   ReplacedTextureLevel list \<Rightarrow> (u8 list list \<times> ReplacedTextureLevel list) option" where
  "ktx_loop f bc mipLevel 0 i level ds lv = Some (ds, lv)"
| "ktx_loop f bc mipLevel (Suc n) i level ds lv =
     (if length ds \<le> mipLevel + i then None
      else
        (let levelInfo = ktx_level_info f i;
             dataSizeBytes =
               (case bc of
                  Some blockSize \<Rightarrow> m_total_blocks levelInfo * blockSize
                | None \<Rightarrow> m_orig_width levelInfo * m_orig_height levelInfo * 4);
             ds1 = ds[i := resize_bytes dataSizeBytes (ds ! i)];
             ds2 = ds1[mipLevel + i := overwrite (ds1 ! (mipLevel + i)) (ktx_transcoded f i)];
             level1 = level\<lparr>w := int (m_orig_width levelInfo),
                            h := int (m_orig_height levelInfo),
                            fileRef := (if i \<noteq> 0 then None else fileRef level)\<rparr>
         in ktx_loop f bc mipLevel n (Suc i) level1 ds2 (lv @ [level1])))"

definition decode_KTX2 ::
  "env \<Rightarrow> ReplacementDesc \<Rightarrow> vfile \<Rightarrow> nat \<Rightarrow> int \<Rightarrow> DataFormat \<Rightarrow> ReplacedTextureLevel \<Rightarrow>
   u8 list list \<Rightarrow> ReplacedTextureLevel list \<Rightarrow> ReplacedTextureAlpha \<Rightarrow> decoded option" where
  "decode_KTX2 e d f mipLevel nMips pf level ds lv al =
     (if \<not> ktx_init f then Some (LOAD_ERROR, pf, ds, lv, al)
      else if \<not> ktx_is_etc1s f \<and> \<not> ktx_is_uastc f then Some (LOAD_ERROR, pf, ds, lv, al)
      else
        (let al1 = (if ktx_is_etc1s f then FULL else UNKNOWN);
             pf1 = (if ktx_is_etc1s f then
                      (if bc123 d then BC1_RGBA_UNORM_BLOCK
                       else if etc2 d then ETC2_R8G8B8_UNORM_BLOCK
                       else R8G8B8A8_UNORM)
                    else
                      (if bc7 d then BC7_UNORM_BLOCK
                       else if astc d then ASTC_4x4_UNORM_BLOCK
                       else R8G8B8A8_UNORM))
         in if nMips < 0 then None
            else
              (case ktx_loop f (DataFormatIsBlockCompressed e pf1) mipLevel (nat nMips) 0 level
                      (resize_data (nat nMips) ds) lv of
                 None \<Rightarrow> None
               | Some (ds1, lv1) \<Rightarrow> Some (DONE, pf1, ds1, lv1, al1))))"

text \<open>The loop over the mips inside one DDS file; \<open>bytesToRead\<close> is computed in
  \<open>uint32_t\<close>.\<close>

fun dds_loop ::
  "nat \<Rightarrow> nat \<Rightarrow> nat \<Rightarrow> nat \<Rightarrow> u8 list \<Rightarrow> ReplacedTextureLevel \<Rightarrow> u8 list list \<Rightarrow>
   ReplacedTextureLevel list \<Rightarrow> (u8 list list \<times> ReplacedTextureLevel list) option" where
  "dds_loop blockSize mipLevel 0 i payload level ds lv = Some (ds, lv)"
| "dds_loop blockSize mipLevel (Suc n) i payload level ds lv =
     (if length ds \<le> mipLevel + i then None
      else
        (let bytesToRead =
               unat ((RoundUpTo4 (word_of_int (w level)) * RoundUpTo4 (word_of_int (h level))
                       * word_of_nat blockSize) div 16 :: u32);
             out = overwrite (resize_bytes bytesToRead (ds ! (mipLevel + i)))
                     (take bytesToRead payload);
             level1 = level\<lparr>w := max (c_div (w level) 2) 1, h := max (c_div (h level) 2) 1,
                            fileRef := (if i \<noteq> 0 then None else fileRef level)\<rparr>
         in dds_loop blockSize mipLevel n (Suc i) (drop bytesToRead payload) level1
              (ds[mipLevel + i := out]) (lv @ [level])))"

definition decode_DDS ::
  "env \<Rightarrow> vfile \<Rightarrow> nat \<Rightarrow> int \<Rightarrow> DataFormat \<Rightarrow> ReplacedTextureLevel \<Rightarrow>
   u8 list list \<Rightarrow> ReplacedTextureLevel list \<Rightarrow> decoded option" where
  "decode_DDS e f mipLevel nMips pf level ds lv =
     (let blockSize = (case DataFormatIsBlockCompressed e pf of None \<Rightarrow> 0 | Some b \<Rightarrow> b)
      in if nMips < 0 then None
         else
           (case dds_loop blockSize mipLevel (nat nMips) 0 (dds_payload f) level
                   (resize_data (nat nMips) ds) lv of
              None \<Rightarrow> None
            | Some (ds1, lv1) \<Rightarrow> Some (DONE, pf, ds1, lv1, UNKNOWN)))"

text \<open>Rows of an image \<open>zw\<close> pixels wide, written into a buffer whose rows are \<open>lw\<close> pixels
  wide: row \<open>y\<close> goes to byte offset \<open>lw * 4 * y\<close>. This is the loop of \<open>memcpy\<close> for a ZIM
  image, and what \<open>png_image_finish_read\<close> does with the row stride \<open>level.w * 4\<close>.\<close>

fun write_rows :: "nat \<Rightarrow> nat \<Rightarrow> u8 list \<Rightarrow> nat list \<Rightarrow> u8 list \<Rightarrow> u8 list option" where
  "write_rows lw zw src [] out = Some out"
| "write_rows lw zw src (y # ys) out =
     (if length src < zw * 4 * y + zw * 4 \<or> length out < lw * 4 * y + zw * 4 then None
      else write_rows lw zw src ys
             (take (lw * 4 * y) out @ take (zw * 4) (drop (zw * 4 * y) src)
                @ drop (lw * 4 * y + zw * 4) out))"

definition decode_ZIM ::
  "vfile \<Rightarrow> nat \<Rightarrow> DataFormat \<Rightarrow> ReplacedTextureLevel \<Rightarrow>
   u8 list list \<Rightarrow> ReplacedTextureLevel list \<Rightarrow> ReplacedTextureAlpha \<Rightarrow> decoded option" where
  "decode_ZIM f mipLevel pf level ds lv al =
     (if \<not> zim_read_ok f then Some (LOAD_ERROR, pf, ds, lv, al)
      else
        (case zim_load f of
           None \<Rightarrow> Some (CONTINUE, pf, ds, lv, al)
         | Some img \<Rightarrow>
             (if zi_w img > w level \<or> zi_h img > h level then Some (LOAD_ERROR, pf, ds, lv, al)
              else if mul32 (mul32 (w level) (h level)) 4 < 0 then None
              else
                (let n = nat (mul32 (mul32 (w level) (h level)) 4);
                     out0 = resize_bytes n (ds ! mipLevel);
                     out =
                       (if zi_w img = w level then
                          (if length (zi_pixels img) < n then None
                           else Some (take n (zi_pixels img)))
                        else if zi_w img < 0 \<and> 0 < zi_h img then None
                        else write_rows (nat (w level)) (nat (zi_w img)) (zi_pixels img)
                               [0 ..< nat (zi_h img)] out0);
                     res = zi_alpha img;
                     al1 = (if res = CHECKALPHA_ANY \<or> mipLevel = 0 then FromCheck res else al)
                 in case out of
                      None \<Rightarrow> None
                    | Some bytes \<Rightarrow>
                        Some (CONTINUE, pf, ds[mipLevel := bytes], lv @ [level], al1)))))"

text \<open>\<open>png_finish_read\<close> of the file is the decoded image, \<open>png_height\<close> rows of
  \<open>png_width * 4\<close> bytes; the library writes it with a row stride of \<open>level.w * 4\<close>. A
  negative \<open>level.w\<close> can pass the unsigned size test; the stride is negative then and
  the decoder has no result here.\<close>

definition decode_PNG ::
  "vfile \<Rightarrow> nat \<Rightarrow> DataFormat \<Rightarrow> ReplacedTextureLevel \<Rightarrow>
   u8 list list \<Rightarrow> ReplacedTextureLevel list \<Rightarrow> ReplacedTextureAlpha \<Rightarrow> decoded option" where
  "decode_PNG f mipLevel pf level ds lv al =
     (case png_begin_read f of
        None \<Rightarrow> Some (LOAD_ERROR, pf, ds, lv, al)
      | Some png \<Rightarrow>
          (if png_width png > unat (word_of_int (w level) :: u32)
              \<or> png_height png > unat (word_of_int (h level) :: u32)
           then Some (LOAD_ERROR, pf, ds, lv, al)
           else
             (let checkedAlpha = \<not> png_has_alpha png;
                  al1 = (if checkedAlpha \<and> mipLevel = 0 then FULL else al)
              in if mul32 (mul32 (w level) (h level)) 4 < 0 \<or> w level < 0 then None
                 else
                   (case png_finish_read png of
                      None \<Rightarrow> Some (LOAD_ERROR, pf, ds[mipLevel := []], lv, al1)
                    | Some pixels \<Rightarrow>
                        (case write_rows (nat (w level)) (png_width png) pixels
                                [0 ..< png_height png]
                                (resize_bytes (nat (mul32 (mul32 (w level) (h level)) 4))
                                   (ds ! mipLevel)) of
                           None \<Rightarrow> None
                         | Some out \<Rightarrow>
                             (let res = png_alpha png;
                                  al2 = (if \<not> checkedAlpha \<and>
                                            (res = CHECKALPHA_ANY \<or> mipLevel = 0)
                                         then FromCheck res else al1)
                              in Some (CONTINUE, pf, ds[mipLevel := out], lv @ [level],
                                       al2)))))))"

text \<open>\<open>LoadLevelData\<close>. \<open>ll_closed\<close> records that \<open>CloseFile\<close> was called on the file the
  call opened. The function is private and only \<open>Prepare\<close> calls it, after it has
  dereferenced \<open>desc_\<close> and \<open>levelData_\<close>; with either null there is no defined result.
  \<open>levels_[0]\<close> on an empty \<open>levels_\<close> and a division by a zero \<open>newW\<close> or \<open>newH\<close> have
  none either.\<close>

record level_result =
  ll_result :: LoadLevelResult
  ll_pixelFormat :: DataFormat
  ll_tex :: ReplacedTexture
  ll_closed :: bool

definition decode_level ::
  "env \<Rightarrow> ReplacementDesc \<Rightarrow> vfile \<Rightarrow> ReplacedImageType \<Rightarrow> nat \<Rightarrow> int \<Rightarrow> DataFormat \<Rightarrow>
   ReplacedTextureLevel \<Rightarrow> u8 list list \<Rightarrow> ReplacedTextureLevel list \<Rightarrow>
   ReplacedTextureAlpha \<Rightarrow> decoded option" where
  "decode_level e d f imageType mipLevel nMips pf level ds lv al =
     (case imageType of
        KTX2 \<Rightarrow> decode_KTX2 e d f mipLevel nMips pf level ds lv al
      | DDS \<Rightarrow> decode_DDS e f mipLevel nMips pf level ds lv
      | ZIM \<Rightarrow> decode_ZIM f mipLevel pf level ds lv al
      | PNG \<Rightarrow> decode_PNG f mipLevel pf level ds lv al
      | _ \<Rightarrow> Some (LOAD_ERROR, pf, ds, lv, al))"

definition LoadLevelData ::
  "env \<Rightarrow> ReplacedTexture \<Rightarrow> nat \<Rightarrow> nat \<Rightarrow> DataFormat \<Rightarrow> level_result option" where
  "LoadLevelData e tex fref mipLevel pf =
     (case (desc tex, levelData tex) of
        (Some d, Some c) \<Rightarrow>
          (let ds0 = (if length (data c) \<le> mipLevel then resize_data (mipLevel + 1) (data c)
                      else data c);
               tex0 = tex\<lparr>levelData := Some (c\<lparr>data := ds0\<rparr>)\<rparr>
           in case OpenFileForRead (vfs e) fref of
                None \<Rightarrow>
                  Some \<lparr>ll_result = DONE, ll_pixelFormat = pf, ll_tex = tex0, ll_closed = False\<rparr>
              | Some f \<Rightarrow>
                  (let imageType = Identify f;
                       hi = read_header e d f imageType pf
                   in if ds0 ! mipLevel \<noteq> [] then
                        Some \<lparr>ll_result = DONE, ll_pixelFormat = cache_fmt c, ll_tex = tex0,
                              ll_closed = True\<rparr>
                      else if newW d = 0 \<or> newH d = 0 then None
                      else
                        (let level = \<lparr>w = c_div (mul32 (hd_w hi) (desc_w d)) (newW d),
                                      h = c_div (mul32 (hd_h hi) (desc_h d)) (newH d),
                                      fileRef = None\<rparr>
                         in if good hi \<and> mipLevel \<noteq> 0 \<and> levels tex = [] then None
                            else if \<not> (good hi \<and>
                                        (mipLevel = 0 \<or>
                                         \<not> (w level \<noteq> drop_bit mipLevel (w (levels tex ! 0)) \<or>
                                            h level \<noteq> drop_bit mipLevel (h (levels tex ! 0)))))
                            then
                              Some \<lparr>ll_result = LOAD_ERROR, ll_pixelFormat = hd_pf hi,
                                    ll_tex = tex0, ll_closed = True\<rparr>
                            else
                              (case decode_level e d f imageType mipLevel (numMips hi) (hd_pf hi)
                                      (level\<lparr>fileRef := Some fref\<rparr>) ds0 (levels tex)
                                      (alphaStatus tex) of
                                 None \<Rightarrow> None
                               | Some (r, pf1, ds1, lv1, al1) \<Rightarrow>
                                   Some \<lparr>ll_result = r, ll_pixelFormat = pf1,
                                         ll_tex = tex\<lparr>levelData := Some (c\<lparr>data := ds1\<rparr>),
                                                      levels := lv1, alphaStatus := al1\<rparr>,
                                         ll_closed = True\<rparr>))))
      | _ \<Rightarrow> None)"

section \<open>The background load routine\<close>

text \<open>The loop of \<open>Prepare\<close>, \<open>n\<close> iterations left, at level \<open>i\<close>; \<open>pf\<close> is the local
  \<open>pixelFormat\<close> and \<open>result\<close> the local \<open>result\<close>.\<close>

fun Prepare_loop ::
  "env \<Rightarrow> ReplacementDesc \<Rightarrow> nat \<Rightarrow> nat \<Rightarrow> DataFormat \<Rightarrow> LoadLevelResult \<Rightarrow> ReplacedTexture \<Rightarrow>
   (LoadLevelResult \<times> ReplacedTexture) option" where
  "Prepare_loop e d 0 i pf result tex = Some (result, tex)"
| "Prepare_loop e d (Suc n) i pf result tex =
     (if state tex = CANCEL_INIT then Some (result, tex)
      else if filenames d ! i = [] then Some (result, tex)
      else
        (case GetFile (vfs e) (filenames d ! i) of
           None \<Rightarrow> Some (DONE, tex)
         | Some fref \<Rightarrow>
             (let tex1 = (if i = 0 then tex\<lparr>fmt := R8G8B8A8_UNORM\<rparr> else tex)
              in case LoadLevelData e tex1 fref i pf of
                   None \<Rightarrow> None
                 | Some r \<Rightarrow>
                     (case ll_result r of
                        DONE \<Rightarrow> Some (DONE, (ll_tex r)\<lparr>fmt := ll_pixelFormat r\<rparr>)
                      | CONTINUE \<Rightarrow>
                          (if i = 0 then
                             Prepare_loop e d n (Suc i) (ll_pixelFormat r) CONTINUE
                               ((ll_tex r)\<lparr>fmt := ll_pixelFormat r\<rparr>)
                           else if fmt (ll_tex r) \<noteq> ll_pixelFormat r then
                             Some (CONTINUE, ll_tex r)
                           else Prepare_loop e d n (Suc i) (ll_pixelFormat r) CONTINUE (ll_tex r))
                      | LOAD_ERROR \<Rightarrow> Some (LOAD_ERROR, ll_tex r)))))"

text \<open>The end of \<open>Prepare\<close>, from the test of \<open>levels_.empty()\<close> on.\<close>

definition Prepare_finish :: "ReplacedTexture \<Rightarrow> ReplacedTexture" where
  "Prepare_finish tex =
     (if levels tex = [] then
        tex\<lparr>state := NOT_FOUND, levelData := None, desc := None\<rparr>
      else
        tex\<lparr>levelData := map_option (\<lambda>c. c\<lparr>cache_fmt := fmt tex\<rparr>) (levelData tex),
            state := ACTIVE, desc := None,
            threadWaitable := map_option (\<lambda>x. x\<lparr>triggered := True\<rparr>) (threadWaitable tex)\<rparr>)"

text \<open>\<open>Prepare\<close> asserts a bound cache entry and dereferences the descriptor at once.\<close>

definition Prepare :: "env \<Rightarrow> ReplacedTexture \<Rightarrow> ReplacedTexture option" where
  "Prepare e tex =
     (case (levelData tex, desc tex) of
        (Some c, Some d) \<Rightarrow>
          (case Prepare_loop e d (min (MAX_REPLACEMENT_MIP_LEVELS e) (length (filenames d))) 0
                  (uninit_pixelFormat e) (if filenames d = [] then DONE else LOAD_ERROR)
                  (tex\<lparr>fmt := UNDEFINED\<rparr>) of
             None \<Rightarrow> None
           | Some (result, tex1) \<Rightarrow> Some (Prepare_finish tex1))
      | _ \<Rightarrow> None)"

section \<open>The state machine of a handle\<close>

text \<open>\<open>LimitedWaitable::WaitFor\<close>: true when the signal has fired already, or fires
  within the wait; the second is the scheduler's choice, the argument \<open>signalled\<close>.\<close>

definition WaitFor :: "LimitedWaitable \<Rightarrow> bool \<Rightarrow> bool" where
  "WaitFor x signalled = (triggered x \<or> signalled)"

definition FinishPopulate :: "ReplacedTexture \<Rightarrow> ReplacementDesc \<Rightarrow> ReplacedTexture" where
  "FinishPopulate tex d =
     tex\<lparr>tex_logId := logId d, levelData := Some (cache d), desc := Some d, state := POPULATED\<rparr>"

text \<open>\<open>ReplacedTextureTask::Run\<close>: \<open>Prepare\<close>, then \<open>Notify\<close>.\<close>

definition Task_Run :: "env \<Rightarrow> ReplacedTexture \<Rightarrow> ReplacedTexture option" where
  "Task_Run e tex =
     map_option
       (\<lambda>t. t\<lparr>threadWaitable := map_option (\<lambda>x. x\<lparr>triggered := True\<rparr>) (threadWaitable t)\<rparr>)
       (Prepare e tex)"

definition PurgeIfOlder :: "ReplacedTexture \<Rightarrow> real \<Rightarrow> bool \<Rightarrow> ReplacedTexture" where
  "PurgeIfOlder tex t signalled =
     (if (case threadWaitable tex of None \<Rightarrow> False | Some x \<Rightarrow> \<not> WaitFor x signalled) then tex
      else if lastUsed tex \<ge> t then tex
      else
        (case levelData tex of
           None \<Rightarrow> tex
         | Some c \<Rightarrow>
             (if cache_lastUsed c < t then
                tex\<lparr>levelData := Some (c\<lparr>data := []\<rparr>), state := POPULATED\<rparr>
              else tex)))"

text \<open>\<open>IsReady\<close> at time \<open>now\<close>. When the wait in the \<open>POPULATED\<close> branch succeeds, the task
  has run in between. A failed \<open>_assert_\<close> is \<open>None\<close>.\<close>

definition IsReady ::
  "env \<Rightarrow> ReplacedTexture \<Rightarrow> real \<Rightarrow> real \<Rightarrow> bool \<Rightarrow> (bool \<times> ReplacedTexture) option" where
  "IsReady e tex budget now signalled =
     (if state tex = ACTIVE \<or> state tex = NOT_FOUND then
        (case threadWaitable tex of
           Some x \<Rightarrow>
             (if \<not> WaitFor x signalled then Some (False, tex\<lparr>lastUsed := now\<rparr>)
              else
                Some (True,
                  tex\<lparr>threadWaitable := None,
                      levelData := map_option (\<lambda>c. c\<lparr>cache_lastUsed := now\<rparr>) (levelData tex),
                      lastUsed := now\<rparr>))
         | None \<Rightarrow> Some (True, tex\<lparr>lastUsed := now\<rparr>))
      else if state tex = UNINITIALIZED then Some (False, tex)
      else if state tex = CANCEL_INIT \<or> state tex = PENDING then Some (False, tex)
      else if budget < 0 then Some (False, tex\<lparr>lastUsed := now\<rparr>)
      else if threadWaitable tex \<noteq> None then None
      else
        (let tex1 = tex\<lparr>lastUsed := now, threadWaitable := Some \<lparr>triggered = False\<rparr>,
                       state := PENDING\<rparr>
         in if signalled then
              (case Task_Run e tex1 of
                 None \<Rightarrow> None
               | Some tex2 \<Rightarrow>
                   (if state tex2 = ACTIVE \<or> state tex2 = NOT_FOUND \<or> state tex2 = CANCEL_INIT
                    then Some (True, tex2) else None))
            else Some (False, tex1)))"




definition empty_texture :: ReplacedTexture where
  "empty_texture =
     \<lparr>state = UNINITIALIZED, desc = None, levelData = None, levels = [], fmt = UNDEFINED,
      alphaStatus = UNKNOWN, lastUsed = 0, threadWaitable = None, tex_logId = []\<rparr>"

section \<open>Concrete files and descriptors\<close>

definition blockSize_table :: "DataFormat \<Rightarrow> nat option" where
  "blockSize_table f =
     (if f = BC1_RGBA_UNORM_BLOCK \<or> f = ETC2_R8G8B8_UNORM_BLOCK then Some 8
      else if f = BC2_UNORM_BLOCK \<or> f = BC3_UNORM_BLOCK \<or> f = BC7_UNORM_BLOCK
              \<or> f = ASTC_4x4_UNORM_BLOCK then Some 16
      else None)"

definition blank_file :: vfile where
  "blank_file =
     \<lparr>leading = [], fileSize = 0, ktx_header = None, dds_header = None, dds_header10 = None,
      zim_header = None, png_peek = None, ktx_init = False, ktx_is_etc1s = False,
      ktx_is_uastc = False,
      ktx_level_info = (\<lambda>i. \<lparr>m_orig_width = 0, m_orig_height = 0, m_total_blocks = 0,
                                m_num_blocks_x = 0\<rparr>),
      ktx_transcoded = (\<lambda>i. []), dds_payload = [], zim_read_ok = False, zim_load = None,
      png_begin_read = None\<rparr>"

text \<open>An opaque PNG of \<open>pw\<close> by \<open>ph\<close> pixels, every byte \<open>0xFF\<close>.\<close>

definition png_file :: "nat \<Rightarrow> nat \<Rightarrow> vfile" where
  "png_file pw ph =
     blank_file\<lparr>leading := [0x89, 0x50, 0x4E, 0x47], fileSize := 64,
       png_peek := Some \<lparr>IsValidPNGHeader = True, Width = int pw, Height = int ph\<rparr>,
       png_begin_read :=
         Some \<lparr>png_width = pw, png_height = ph, png_has_alpha = False,
               png_finish_read = Some (replicate (pw * ph * 4) 0xFF),
               png_alpha = CHECKALPHA_FULL\<rparr>\<rparr>"

fun lookup_ref :: "(string \<times> vfile) list \<Rightarrow> string \<Rightarrow> nat option" where
  "lookup_ref [] name = None"
| "lookup_ref ((k, f) # fs) name =
     (if k = name then Some 0 else map_option Suc (lookup_ref fs name))"

definition test_vfs :: "(string \<times> vfile) list \<Rightarrow> VFSBackend" where
  "test_vfs fs =
     \<lparr>GetFile = lookup_ref fs,
      OpenFileForRead = (\<lambda>i. if i < length fs then Some (snd (fs ! i)) else None)\<rparr>"

definition test_env :: "(string \<times> vfile) list \<Rightarrow> env" where
  "test_env fs =
     \<lparr>vfs = test_vfs fs, MAX_REPLACEMENT_MIP_LEVELS = 12, DDPF_FOURCC = 4,
      ZIM_FORMAT_MASK = 15, ZIM_RGBA8888 = 0, DataFormatIsBlockCompressed = blockSize_table,
      uninit_pixelFormat = UNDEFINED\<rparr>"

definition empty_cache :: ReplacedLevelsCache where
  "empty_cache = \<lparr>data = [], cache_fmt = UNDEFINED, cache_lastUsed = 0\<rparr>"

text \<open>A descriptor with scale 1:1 on a device that takes BC1-3 only.\<close>

definition test_desc :: "string list \<Rightarrow> ReplacementDesc" where
  "test_desc names =
     \<lparr>filenames = names, desc_w = 1, desc_h = 1, newW = 1, newH = 1, bc123 = True,
      bc7 = False, etc2 = False, astc = False, logId = [], cache = empty_cache\<rparr>"

text \<open>The handle after the 4 by 1 PNG has been loaded and the ready-check has released
  the completion signal at time 6.\<close>

definition loaded_png :: ReplacedTexture where
  "loaded_png =
     \<lparr>state = ACTIVE, desc = None,
      levelData = Some \<lparr>data = [replicate 16 0xFF], cache_fmt = R8G8B8A8_UNORM,
                        cache_lastUsed = 6\<rparr>,
      levels = [\<lparr>w = 4, h = 1, fileRef = Some 0\<rparr>], fmt = R8G8B8A8_UNORM,
      alphaStatus = FULL, lastUsed = 6, threadWaitable = None, tex_logId = []\<rparr>"

text \<open>A classic (non-DX10) DDS file with four-character code \<open>fourcc\<close>, \<open>pw\<close> by \<open>ph\<close>
  pixels and declared mip count \<open>mips\<close>, followed by eight payload bytes.\<close>

definition dds_file :: "u8 list \<Rightarrow> nat \<Rightarrow> nat \<Rightarrow> nat \<Rightarrow> vfile" where
  "dds_file fourcc pw ph mips =
     blank_file\<lparr>leading := bytes_DDS, fileSize := 136,
       dds_header :=
         Some \<lparr>ddspf_dwFlags = 4, ddspf_dwFourCC = MK_FOURCC fourcc, dwWidth = of_nat pw,
               dwHeight = of_nat ph, dwMipMapCount = of_nat mips\<rparr>,
       dds_payload := replicate 8 0\<rparr>"


text \<open>A standalone Basis file: \<open>sB\<close>, then version \<open>0x0013\<close> in little-endian order.\<close>

definition basis_file :: vfile where
  "basis_file = blank_file\<lparr>leading := [0x73, 0x42, 0x13, 0x00], fileSize := 77\<rparr>"




section \<open>What a level load leaves untouched\<close>



lemma Prepare_final_state:
  "Prepare e tex = Some tex' \<Longrightarrow> state tex' = ACTIVE \<or> state tex' = NOT_FOUND"
  by (auto simp: Prepare_def Prepare_finish_def split: option.splits prod.splits if_splits)

section \<open>Completion of the load routine\<close>



section \<open>The ready-check\<close>

lemma Task_Run_final_state:
  "Task_Run e tex = Some tex' \<Longrightarrow> state tex' = ACTIVE \<or> state tex' = NOT_FOUND"
  using Prepare_final_state by (fastforce simp: Task_Run_def)

text \<open>
  C1. Whenever \<open>IsReady\<close> returns true, the state of the handle it returns with is
  \<open>ACTIVE\<close> or \<open>NOT_FOUND\<close>: this covers a call that enters in \<open>POPULATED\<close>, starts the
  task and sees it finish within the budget. Entered in \<open>UNINITIALIZED\<close>, \<open>PENDING\<close>
  or \<open>CANCEL_INIT\<close>, the call returns false, for every budget, and leaves the handle
  as it was.
\<close>

theorem IsReady_true_only_ACTIVE_or_NOT_FOUND:
  "(IsReady e tex budget now signalled = Some (True, tex') \<longrightarrow>
      state tex' = ACTIVE \<or> state tex' = NOT_FOUND) \<and>
   (state tex = UNINITIALIZED \<or> state tex = PENDING \<or> state tex = CANCEL_INIT \<longrightarrow>
      IsReady e tex budget now signalled = Some (False, tex))"
proof (intro conjI impI)
  assume r: "IsReady e tex budget now signalled = Some (True, tex')"
  show "state tex' = ACTIVE \<or> state tex' = NOT_FOUND"
  proof (cases "state tex = ACTIVE \<or> state tex = NOT_FOUND")
    case True
    with r show ?thesis
      by (auto simp: IsReady_def split: option.splits if_splits)
  next
    case False
    with r obtain t where "Task_Run e t = Some tex'"
      by (auto simp: IsReady_def Let_def split: option.splits if_splits)
    then show ?thesis by (rule Task_Run_final_state)
  qed
next
  assume "state tex = UNINITIALIZED \<or> state tex = PENDING \<or> state tex = CANCEL_INIT"
  then show "IsReady e tex budget now signalled = Some (False, tex)"
    by (auto simp: IsReady_def)
qed

theorem IsReady_true_only_ACTIVE_or_NOT_FOUND_witness:
  "IsReady (test_env []) (FinishPopulate empty_texture (test_desc [''a''])) 1 5 True
     = Some (True,
         \<lparr>state = NOT_FOUND, desc = None, levelData = None, levels = [], fmt = UNDEFINED,
          alphaStatus = UNKNOWN, lastUsed = 5, threadWaitable = Some \<lparr>triggered = True\<rparr>,
          tex_logId = []\<rparr>)
   \<and> state (empty_texture\<lparr>state := PENDING\<rparr>) = PENDING
   \<and> IsReady (test_env []) (empty_texture\<lparr>state := PENDING\<rparr>) 1 5 True
     = Some (False, empty_texture\<lparr>state := PENDING\<rparr>)"
proof -
  have a: "IsReady (test_env []) (FinishPopulate empty_texture (test_desc [''a''])) 1 5 True
     = Some (True,
         \<lparr>state = NOT_FOUND, desc = None, levelData = None, levels = [], fmt = UNDEFINED,
          alphaStatus = UNKNOWN, lastUsed = 5, threadWaitable = Some \<lparr>triggered = True\<rparr>,
          tex_logId = []\<rparr>)"
    by code_simp
  have b: "state (empty_texture\<lparr>state := PENDING\<rparr>) = PENDING" by simp
  from IsReady_true_only_ACTIVE_or_NOT_FOUND
         [of "test_env []" "empty_texture\<lparr>state := PENDING\<rparr>" 1 5 True]
       a b
  show ?thesis by simp
qed

section \<open>Idle eviction\<close>

text \<open>
  C6. \<open>PurgeIfOlder\<close> with threshold \<open>t\<close> changes the handle only when no task is
  outstanding and unfinished and the bound cache entry's last-access time is older than
  \<open>t\<close>; the change is then that the entry's byte buffers are cleared and the state is
  \<open>POPULATED\<close>. With a task outstanding and unfinished, or with a bound entry whose
  last-access time is not older than \<open>t\<close>, the call changes nothing.
\<close>

theorem PurgeIfOlder_only_when_idle_and_old:
  "(PurgeIfOlder tex t signalled \<noteq> tex \<longrightarrow>
      \<not> (\<exists>x. threadWaitable tex = Some x \<and> \<not> WaitFor x signalled) \<and>
      (\<exists>c. levelData tex = Some c \<and> cache_lastUsed c < t \<and>
           PurgeIfOlder tex t signalled
             = tex\<lparr>levelData := Some (c\<lparr>data := []\<rparr>), state := POPULATED\<rparr>)) \<and>
   ((\<exists>x. threadWaitable tex = Some x \<and> \<not> WaitFor x signalled) \<longrightarrow>
      PurgeIfOlder tex t signalled = tex) \<and>
   ((\<exists>c. levelData tex = Some c \<and> \<not> cache_lastUsed c < t) \<longrightarrow>
      PurgeIfOlder tex t signalled = tex)"
  by (auto simp: PurgeIfOlder_def split: option.splits if_splits)

theorem PurgeIfOlder_only_when_idle_and_old_witness:
  "PurgeIfOlder loaded_png 10 False \<noteq> loaded_png
   \<and> PurgeIfOlder loaded_png 10 False
       = loaded_png\<lparr>levelData := Some \<lparr>data = [], cache_fmt = R8G8B8A8_UNORM,
                                        cache_lastUsed = 6\<rparr>,
                     state := POPULATED\<rparr>
   \<and> PurgeIfOlder (loaded_png\<lparr>threadWaitable := Some \<lparr>triggered = False\<rparr>\<rparr>) 10 False
       = loaded_png\<lparr>threadWaitable := Some \<lparr>triggered = False\<rparr>\<rparr>
   \<and> PurgeIfOlder loaded_png 6 False = loaded_png"
proof -
  have a: "PurgeIfOlder loaded_png 10 False \<noteq> loaded_png"
    by (simp add: PurgeIfOlder_def loaded_png_def)
  have b: "\<exists>x. threadWaitable (loaded_png\<lparr>threadWaitable := Some \<lparr>triggered = False\<rparr>\<rparr>) = Some x
             \<and> \<not> WaitFor x False"
    by (simp add: WaitFor_def)
  have c: "\<exists>c. levelData loaded_png = Some c \<and> \<not> cache_lastUsed c < 6"
    by (simp add: loaded_png_def)
  from PurgeIfOlder_only_when_idle_and_old [of loaded_png 10 False] a
  have "PurgeIfOlder loaded_png 10 False
          = loaded_png\<lparr>levelData := Some \<lparr>data = [], cache_fmt = R8G8B8A8_UNORM,
                                           cache_lastUsed = 6\<rparr>,
                        state := POPULATED\<rparr>"
    by (auto simp: loaded_png_def)
  moreover from
    PurgeIfOlder_only_when_idle_and_old
      [of "loaded_png\<lparr>threadWaitable := Some \<lparr>triggered = False\<rparr>\<rparr>" 10 False] b
  have "PurgeIfOlder (loaded_png\<lparr>threadWaitable := Some \<lparr>triggered = False\<rparr>\<rparr>) 10 False
          = loaded_png\<lparr>threadWaitable := Some \<lparr>triggered = False\<rparr>\<rparr>"
    by blast
  moreover from PurgeIfOlder_only_when_idle_and_old [of loaded_png 6 False] c
  have "PurgeIfOlder loaded_png 6 False = loaded_png" by blast
  ultimately show ?thesis using a by simp
qed

section \<open>The load descriptor across eviction\<close>

text \<open>
  C7. A handle is populated with a descriptor for one 4 by 1 PNG, the ready-check at
  time 5 starts the task and sees it finish (\<open>ACTIVE\<close>, descriptor freed), the
  ready-check at time 6 releases the completion signal, and idle eviction with
  threshold 10 then demotes the handle: its state is \<open>POPULATED\<close> and its load
  descriptor is null. The next ready-check starts a task whose \<open>Prepare\<close> dereferences
  the null descriptor, so it has no defined result.
\<close>

theorem eviction_leaves_POPULATED_without_descriptor:
  "IsReady (test_env [(''a'', png_file 4 1)])
       (FinishPopulate empty_texture (test_desc [''a''])) 1 5 True
     = Some (True, loaded_png\<lparr>lastUsed := 5, threadWaitable := Some \<lparr>triggered = True\<rparr>,
                              levelData := Some \<lparr>data = [replicate 16 0xFF],
                                                 cache_fmt = R8G8B8A8_UNORM,
                                                 cache_lastUsed = 0\<rparr>\<rparr>)
   \<and> IsReady (test_env [(''a'', png_file 4 1)])
       (loaded_png\<lparr>lastUsed := 5, threadWaitable := Some \<lparr>triggered = True\<rparr>,
                   levelData := Some \<lparr>data = [replicate 16 0xFF], cache_fmt = R8G8B8A8_UNORM,
                                      cache_lastUsed = 0\<rparr>\<rparr>) 1 6 False
     = Some (True, loaded_png)
   \<and> state (PurgeIfOlder loaded_png 10 False) = POPULATED
   \<and> desc (PurgeIfOlder loaded_png 10 False) = None
   \<and> IsReady (test_env [(''a'', png_file 4 1)]) (PurgeIfOlder loaded_png 10 False) 1 20 True
     = None"
  by code_simp

theorem eviction_leaves_POPULATED_without_descriptor_witness:
  "(state (PurgeIfOlder loaded_png 10 False), desc (PurgeIfOlder loaded_png 10 False))
   = (POPULATED, None)"
  using eviction_leaves_POPULATED_without_descriptor by simp

section \<open>Formats and sizes across levels\<close>

lemma decode_KTX2_not_CONTINUE:
  "decode_KTX2 e d f i n pf level ds lv al = Some (r, pf1, ds1, lv1, al1) \<Longrightarrow> r \<noteq> CONTINUE"
  by (auto simp: decode_KTX2_def Let_def split: if_splits option.splits)

lemma decode_DDS_not_CONTINUE:
  "decode_DDS e f i n pf level ds lv = Some (r, pf1, ds1, lv1, al1) \<Longrightarrow> r \<noteq> CONTINUE"
  by (auto simp: decode_DDS_def Let_def split: if_splits option.splits)

lemma decode_ZIM_format:
  "decode_ZIM f i pf level ds lv al = Some (r, pf1, ds1, lv1, al1) \<Longrightarrow> pf1 = pf"
  by (auto simp: decode_ZIM_def Let_def split: if_splits option.splits)

lemma decode_PNG_format:
  "decode_PNG f i pf level ds lv al = Some (r, pf1, ds1, lv1, al1) \<Longrightarrow> pf1 = pf"
  by (auto simp: decode_PNG_def Let_def split: if_splits option.splits)

lemma header_ZIM_format: "hd_pf (header_ZIM e f) = R8G8B8A8_UNORM"
  by (simp add: header_ZIM_def split: option.splits)

lemma header_PNG_format: "hd_pf (header_PNG f) = R8G8B8A8_UNORM"
  by (simp add: header_PNG_def split: option.splits)

lemma decode_level_CONTINUE:
  assumes "decode_level e d f ty i n (hd_pf (read_header e d f ty pf)) level ds lv al
             = Some (CONTINUE, pf1, ds1, lv1, al1)"
  shows "pf1 = R8G8B8A8_UNORM"
proof (cases ty)
  case ZIM
  with assms show ?thesis
    using decode_ZIM_format by (fastforce simp: decode_level_def read_header_def header_ZIM_format)
next
  case PNG
  with assms show ?thesis
    using decode_PNG_format by (fastforce simp: decode_level_def read_header_def header_PNG_format)
next
  case DDS
  with assms show ?thesis
    using decode_DDS_not_CONTINUE by (fastforce simp: decode_level_def)
next
  case KTX2
  with assms show ?thesis
    using decode_KTX2_not_CONTINUE by (fastforce simp: decode_level_def)
qed (use assms in \<open>simp_all add: decode_level_def\<close>)

lemma LoadLevelData_CONTINUE_format:
  assumes "LoadLevelData e tex fref i pf = Some r" and "ll_result r = CONTINUE"
  shows "ll_pixelFormat r = R8G8B8A8_UNORM"
  using assms
  by (auto simp: LoadLevelData_def Let_def split: option.splits prod.splits if_splits
           dest: decode_level_CONTINUE)

lemma accepted_level_size_is_shifted:
  assumes "LoadLevelData e tex fref i pf = Some r" and "i \<noteq> 0"
    and "levels (ll_tex r) \<noteq> levels tex"
    and "desc tex = Some d" and "OpenFileForRead (vfs e) fref = Some f"
  shows "c_div (mul32 (hd_w (read_header e d f (Identify f) pf)) (desc_w d)) (newW d)
           = drop_bit i (w (levels tex ! 0)) \<and>
         c_div (mul32 (hd_h (read_header e d f (Identify f) pf)) (desc_h d)) (newH d)
           = drop_bit i (h (levels tex ! 0))"
  using assms
  by (auto simp: LoadLevelData_def Let_def split: option.splits prod.splits if_splits)



text \<open>
  C4. A descriptor names a 2 by 2 PNG for level 0 and a 1 by 1 DXT1 DDS file for
  level 1. With a declared mip count of 0 in the DDS header the level-1 load empties
  the cache entry's vector of buffers, appends nothing and returns \<open>DONE\<close>; \<open>Prepare\<close>
  then takes the DDS format: the handle is \<open>ACTIVE\<close> with the one PNG level, but its
  format and the cache entry's are BC1 and the level-0 bytes are gone. With a declared
  mip count of 1 the DDS loop indexes the vector of buffers past its end.
\<close>

theorem compressed_level_1_restamps_format:
  "Prepare (test_env [(''a'', png_file 2 2), (''b'', dds_file bytes_DXT1 1 1 0)])
       (FinishPopulate empty_texture (test_desc [''a'', ''b'']))
     = Some \<lparr>state = ACTIVE, desc = None,
             levelData = Some \<lparr>data = [], cache_fmt = BC1_RGBA_UNORM_BLOCK,
                               cache_lastUsed = 0\<rparr>,
             levels = [\<lparr>w = 2, h = 2, fileRef = Some 0\<rparr>], fmt = BC1_RGBA_UNORM_BLOCK,
             alphaStatus = UNKNOWN, lastUsed = 0, threadWaitable = None, tex_logId = []\<rparr>
   \<and> Prepare (test_env [(''a'', png_file 2 2), (''b'', dds_file bytes_DXT1 1 1 1)])
       (FinishPopulate empty_texture (test_desc [''a'', ''b'']))
     = None"
  by code_simp

theorem compressed_level_1_restamps_format_witness:
  "map_option (\<lambda>t. (state t, length (levels t), fmt t, map_option data (levelData t)))
     (Prepare (test_env [(''a'', png_file 2 2), (''b'', dds_file bytes_DXT1 1 1 0)])
        (FinishPopulate empty_texture (test_desc [''a'', ''b''])))
   = Some (ACTIVE, 1, BC1_RGBA_UNORM_BLOCK, Some [])"
  using compressed_level_1_restamps_format by simp

section \<open>Rejected files\<close>

lemma resize_data_slot_empty:
  "length xs \<le> i \<Longrightarrow> resize_data (Suc i) xs ! i = []"
  by (simp add: resize_data_def nth_append)

lemma LoadLevelData_not_good:
  assumes "desc tex = Some d" and "levelData tex = Some c"
    and "OpenFileForRead (vfs e) fref = Some f"
    and "length (data c) \<le> i \<or> data c ! i = []"
    and "newW d \<noteq> 0" and "newH d \<noteq> 0"
    and "\<not> good (read_header e d f (Identify f) pf)"
  shows "\<exists>t. LoadLevelData e tex fref i pf
           = Some \<lparr>ll_result = LOAD_ERROR,
                   ll_pixelFormat = hd_pf (read_header e d f (Identify f) pf),
                   ll_tex = t, ll_closed = True\<rparr>
         \<and> levels t = levels tex \<and> fmt t = fmt tex \<and> state t = state tex"
  using assms
  by (auto simp: LoadLevelData_def Let_def resize_data_slot_empty)

lemma Prepare_level_0_rejected:
  assumes "desc tex = Some d" and "levelData tex = Some c" and "levels tex = []"
    and "state tex \<noteq> CANCEL_INIT"
    and "filenames d \<noteq> []" and "filenames d ! 0 \<noteq> []"
    and "GetFile (vfs e) (filenames d ! 0) = Some fref"
    and "0 < MAX_REPLACEMENT_MIP_LEVELS e"
    and "LoadLevelData e (tex\<lparr>fmt := R8G8B8A8_UNORM\<rparr>) fref 0 (uninit_pixelFormat e) = Some r"
    and "ll_result r \<noteq> CONTINUE" and "levels (ll_tex r) = []"
  shows "\<exists>tex'. Prepare e tex = Some tex' \<and> state tex' = NOT_FOUND \<and> levelData tex' = None
           \<and> desc tex' = None \<and> levels tex' = []"
proof -
  from assms(5,8) obtain n where n: "min (MAX_REPLACEMENT_MIP_LEVELS e) (length (filenames d)) = Suc n"
    by (cases "min (MAX_REPLACEMENT_MIP_LEVELS e) (length (filenames d))")
       (auto simp: min_def split: if_splits)
  show ?thesis
    using assms n
    by (cases "ll_result r") (auto simp: Prepare_def Prepare_finish_def)
qed


lemma IdentifyMagic_BASIS_iff:
  "IdentifyMagic m0 m1 m2 m3 = BASIS \<longleftrightarrow>
     m0 = 0x73 \<and> m1 = 0x42 \<and> (ucast m2 OR push_bit 8 (ucast m3) :: u16) \<ge> 0x10"
  by (auto simp: IdentifyMagic_def bytes_ZIMG_def bytes_DDS_def bytes_KTX_def Let_def
           split: if_splits)

lemma Identify_BASIS_iff:
  "Identify f = BASIS \<longleftrightarrow>
     (\<exists>b2 b3. leading f = [0x73, 0x42, b2, b3] \<and>
              (ucast b2 OR push_bit 8 (ucast b3) :: u16) \<ge> 0x10)"
  by (auto simp: Identify_def IdentifyMagic_BASIS_iff split: list.splits)

lemma LoadLevelData_slot_filled:
  assumes "desc tex = Some d" and "levelData tex = Some c"
    and "OpenFileForRead (vfs e) fref = Some f"
    and "\<not> (length (data c) \<le> i \<or> data c ! i = [])"
  shows "LoadLevelData e tex fref i pf
           = Some \<lparr>ll_result = DONE, ll_pixelFormat = cache_fmt c, ll_tex = tex,
                   ll_closed = True\<rparr>"
  using assms by (simp add: LoadLevelData_def Let_def)


text \<open>
  C10, as the code has it. The sniffer answers \<open>BASIS\<close> exactly for four leading bytes
  \<open>s\<close>, \<open>B\<close> and a little-endian 16-bit version of at least \<open>0x10\<close>. A file so identified
  is never accepted: loading it at level \<open>i\<close> closes the file and appends no level.
  The result is a load error when no bytes are cached yet for that level; when the
  cache entry already holds bytes for it, the cache check comes first and the result
  is \<open>DONE\<close> with the cache entry's format. Either way, at level 0 of a handle with no
  levels the load routine ends in \<open>NOT_FOUND\<close>.
\<close>

theorem Basis_file_never_accepted:
  assumes "OpenFileForRead (vfs e) fref = Some f"
    and "desc tex = Some d" and "levelData tex = Some c"
    and "newW d \<noteq> 0" and "newH d \<noteq> 0"
  shows "(IdentifyMagic m0 m1 m2 m3 = BASIS \<longleftrightarrow>
            m0 = 0x73 \<and> m1 = 0x42 \<and> (ucast m2 OR push_bit 8 (ucast m3) :: u16) \<ge> 0x10) \<and>
         (Identify f = BASIS \<longleftrightarrow>
            (\<exists>b2 b3. leading f = [0x73, 0x42, b2, b3] \<and>
                     (ucast b2 OR push_bit 8 (ucast b3) :: u16) \<ge> 0x10)) \<and>
         (Identify f = BASIS \<longrightarrow>
            (\<exists>t. LoadLevelData e tex fref i pf
                   = Some \<lparr>ll_result =
                             (if length (data c) \<le> i \<or> data c ! i = [] then LOAD_ERROR
                              else DONE),
                           ll_pixelFormat =
                             (if length (data c) \<le> i \<or> data c ! i = [] then pf
                              else cache_fmt c),
                           ll_tex = t, ll_closed = True\<rparr>
                 \<and> levels t = levels tex) \<and>
            (i = 0 \<and> levels tex = [] \<and> state tex \<noteq> CANCEL_INIT \<and> filenames d \<noteq> [] \<and>
             filenames d ! 0 \<noteq> [] \<and> GetFile (vfs e) (filenames d ! 0) = Some fref \<and>
             0 < MAX_REPLACEMENT_MIP_LEVELS e \<longrightarrow>
               (\<exists>tex'. Prepare e tex = Some tex' \<and> state tex' = NOT_FOUND)))"
proof (intro conjI impI)
  show "IdentifyMagic m0 m1 m2 m3 = BASIS \<longleftrightarrow>
            m0 = 0x73 \<and> m1 = 0x42 \<and> (ucast m2 OR push_bit 8 (ucast m3) :: u16) \<ge> 0x10"
    by (rule IdentifyMagic_BASIS_iff)
  show "Identify f = BASIS \<longleftrightarrow>
            (\<exists>b2 b3. leading f = [0x73, 0x42, b2, b3] \<and>
                     (ucast b2 OR push_bit 8 (ucast b3) :: u16) \<ge> 0x10)"
    by (rule Identify_BASIS_iff)
next
  assume id: "Identify f = BASIS"
  have bad: "\<not> good (read_header e d f (Identify f) p)"
    and pfmt: "hd_pf (read_header e d f (Identify f) p) = p" for p
    by (simp_all add: id read_header_def)
  have load: "\<exists>t. LoadLevelData e x fref i p
                   = Some \<lparr>ll_result =
                             (if length (data c) \<le> i \<or> data c ! i = [] then LOAD_ERROR
                              else DONE),
                           ll_pixelFormat =
                             (if length (data c) \<le> i \<or> data c ! i = [] then p
                              else cache_fmt c),
                           ll_tex = t, ll_closed = True\<rparr>
                 \<and> levels t = levels x"
    if x: "desc x = Some d" "levelData x = Some c" for x p
  proof (cases "length (data c) \<le> i \<or> data c ! i = []")
    case True
    from LoadLevelData_not_good [OF x assms(1) True assms(4,5) bad, of p] True
    show ?thesis by (auto simp: pfmt)
  next
    case False
    from LoadLevelData_slot_filled [OF x assms(1) False, of p] False
    show ?thesis by simp
  qed
  show "\<exists>t. LoadLevelData e tex fref i pf
                   = Some \<lparr>ll_result =
                             (if length (data c) \<le> i \<or> data c ! i = [] then LOAD_ERROR
                              else DONE),
                           ll_pixelFormat =
                             (if length (data c) \<le> i \<or> data c ! i = [] then pf
                              else cache_fmt c),
                           ll_tex = t, ll_closed = True\<rparr>
                 \<and> levels t = levels tex"
    by (rule load [OF assms(2,3)])
  assume h: "i = 0 \<and> levels tex = [] \<and> state tex \<noteq> CANCEL_INIT \<and> filenames d \<noteq> [] \<and>
             filenames d ! 0 \<noteq> [] \<and> GetFile (vfs e) (filenames d ! 0) = Some fref \<and>
             0 < MAX_REPLACEMENT_MIP_LEVELS e"
  let ?tex = "tex\<lparr>fmt := R8G8B8A8_UNORM\<rparr>"
  have "desc ?tex = Some d" "levelData ?tex = Some c" using assms(2,3) by simp_all
  from load [OF this, of "uninit_pixelFormat e"] h
  obtain r where r: "LoadLevelData e ?tex fref 0 (uninit_pixelFormat e) = Some r"
    and "ll_result r \<noteq> CONTINUE" and "levels (ll_tex r) = []"
    by (auto split: if_splits)
  from h have h': "levels tex = []" "state tex \<noteq> CANCEL_INIT" "filenames d \<noteq> []"
    "filenames d ! 0 \<noteq> []" "GetFile (vfs e) (filenames d ! 0) = Some fref"
    "0 < MAX_REPLACEMENT_MIP_LEVELS e" by simp_all
  from Prepare_level_0_rejected [OF assms(2,3) h' r \<open>ll_result r \<noteq> CONTINUE\<close>
         \<open>levels (ll_tex r) = []\<close>]
  show "\<exists>tex'. Prepare e tex = Some tex' \<and> state tex' = NOT_FOUND" by auto
qed

theorem Basis_file_never_accepted_witness:
  "IdentifyMagic 0x73 0x42 0x13 0x00 = BASIS
   \<and> IdentifyMagic 0x73 0x42 0x0F 0x00 \<noteq> BASIS
   \<and> IdentifyMagic 0x89 0x50 0x4E 0x47 \<noteq> BASIS
   \<and> Identify basis_file = BASIS
   \<and> (\<exists>t. LoadLevelData (test_env [(''a'', basis_file)])
                (FinishPopulate empty_texture (test_desc [''a''])) 0 0 UNDEFINED
              = Some \<lparr>ll_result = LOAD_ERROR, ll_pixelFormat = UNDEFINED, ll_tex = t,
                      ll_closed = True\<rparr>)
   \<and> (\<exists>tex'. Prepare (test_env [(''a'', basis_file)])
                 (FinishPopulate empty_texture (test_desc [''a''])) = Some tex'
             \<and> state tex' = NOT_FOUND)"
proof -
  note th = Basis_file_never_accepted
      [of "test_env [(''a'', basis_file)]" 0 basis_file
          "FinishPopulate empty_texture (test_desc [''a''])" "test_desc [''a'']" empty_cache]
  have pre: "OpenFileForRead (vfs (test_env [(''a'', basis_file)])) 0 = Some basis_file"
    "desc (FinishPopulate empty_texture (test_desc [''a''])) = Some (test_desc [''a''])"
    "levelData (FinishPopulate empty_texture (test_desc [''a''])) = Some empty_cache"
    "newW (test_desc [''a'']) \<noteq> 0" "newH (test_desc [''a'']) \<noteq> 0"
    by (simp_all add: test_env_def test_vfs_def test_desc_def FinishPopulate_def)
  have magic: "IdentifyMagic m0 m1 m2 m3 = BASIS \<longleftrightarrow>
      m0 = 0x73 \<and> m1 = 0x42 \<and> (ucast m2 OR push_bit 8 (ucast m3) :: u16) \<ge> 0x10"
    for m0 m1 m2 m3
    using th [OF pre, of m0 m1 m2 m3 0 UNDEFINED] by (rule conjunct1)
  have ident: "Identify basis_file = BASIS \<longleftrightarrow>
      (\<exists>b2 b3. leading basis_file = [0x73, 0x42, b2, b3] \<and>
               (ucast b2 OR push_bit 8 (ucast b3) :: u16) \<ge> 0x10)"
    using th [OF pre, of 0 0 0 0 0 UNDEFINED] by (rule conjunct2 [THEN conjunct1])
  have id: "Identify basis_file = BASIS"
    unfolding ident by (simp add: basis_file_def blank_file_def)
  have rest: "(\<exists>t. LoadLevelData (test_env [(''a'', basis_file)])
                (FinishPopulate empty_texture (test_desc [''a''])) 0 0 UNDEFINED
              = Some \<lparr>ll_result = LOAD_ERROR, ll_pixelFormat = UNDEFINED, ll_tex = t,
                      ll_closed = True\<rparr>)
   \<and> (\<exists>tex'. Prepare (test_env [(''a'', basis_file)])
                 (FinishPopulate empty_texture (test_desc [''a''])) = Some tex'
             \<and> state tex' = NOT_FOUND)"
    using th [OF pre, of 0 0 0 0 0 UNDEFINED, THEN conjunct2, THEN conjunct2, rule_format, OF id]
    by (auto simp: test_env_def test_vfs_def test_desc_def FinishPopulate_def
          empty_texture_def empty_cache_def)
  from magic [of "0x73" "0x42" "0x13" "0x00"] magic [of "0x73" "0x42" "0x0F" "0x00"]
       magic [of "0x89" "0x50" "0x4E" "0x47"] id rest
  show ?thesis by simp
qed

text \<open>
  C10, as stated, fails when the level is already cached: with 16 bytes in the cache
  entry for level 0, loading the Basis file returns \<open>DONE\<close>, not a load error.
\<close>

theorem Basis_file_with_cached_level_returns_DONE:
  "Identify basis_file = BASIS
   \<and> map_option (\<lambda>r. (ll_result r, ll_pixelFormat r))
       (LoadLevelData (test_env [(''a'', basis_file)])
          (FinishPopulate empty_texture
             ((test_desc [''a''])\<lparr>cache := \<lparr>data = [replicate 16 0xFF],
                                            cache_fmt = R8G8B8A8_UNORM,
                                            cache_lastUsed = 0\<rparr>\<rparr>)) 0 0 UNDEFINED)
     = Some (DONE, R8G8B8A8_UNORM)"
  by code_simp




section \<open>A cache entry populated by another handle\<close>

text \<open>
  C9. When the cache entry already holds bytes for the requested level and the file
  opens, \<open>LoadLevelData\<close> closes the file, hands back the cache entry's stored pixel
  format and returns \<open>DONE\<close>, leaving the handle as it was: no level is appended. So the
  load routine of a handle with no levels, whose level-0 bytes are already cached,
  ends in \<open>NOT_FOUND\<close> with an empty level sequence and its cache binding released.
\<close>

theorem prepopulated_slot_DONE_then_NOT_FOUND:
  assumes "desc tex = Some d" and "levelData tex = Some c"
    and "OpenFileForRead (vfs e) fref = Some f"
    and "mipLevel < length (data c)" and "data c ! mipLevel \<noteq> []"
  shows "LoadLevelData e tex fref mipLevel pf
           = Some \<lparr>ll_result = DONE, ll_pixelFormat = cache_fmt c, ll_tex = tex,
                   ll_closed = True\<rparr> \<and>
         (mipLevel = 0 \<and> levels tex = [] \<and> state tex \<noteq> CANCEL_INIT \<and> filenames d \<noteq> [] \<and>
          filenames d ! 0 \<noteq> [] \<and> GetFile (vfs e) (filenames d ! 0) = Some fref \<and>
          0 < MAX_REPLACEMENT_MIP_LEVELS e \<longrightarrow>
            Prepare e tex
              = Some (tex\<lparr>fmt := cache_fmt c, state := NOT_FOUND, levelData := None,
                          desc := None\<rparr>))"
proof -
  have one: "LoadLevelData e t fref mipLevel p
           = Some \<lparr>ll_result = DONE, ll_pixelFormat = cache_fmt c, ll_tex = t,
                   ll_closed = True\<rparr>"
    if "desc t = Some d" "levelData t = Some c" for t p
    using that assms(3,4,5) by (simp add: LoadLevelData_def Let_def)
  have two: "Prepare e tex
              = Some (tex\<lparr>fmt := cache_fmt c, state := NOT_FOUND, levelData := None,
                          desc := None\<rparr>)"
    if h: "mipLevel = 0" "levels tex = []" "state tex \<noteq> CANCEL_INIT" "filenames d \<noteq> []"
      "filenames d ! 0 \<noteq> []" "GetFile (vfs e) (filenames d ! 0) = Some fref"
      "0 < MAX_REPLACEMENT_MIP_LEVELS e"
  proof -
    from h(4,7) obtain n
      where n: "min (MAX_REPLACEMENT_MIP_LEVELS e) (length (filenames d)) = Suc n"
      by (cases "min (MAX_REPLACEMENT_MIP_LEVELS e) (length (filenames d))")
         (auto simp: min_def split: if_splits)
    have "LoadLevelData e (tex\<lparr>fmt := R8G8B8A8_UNORM\<rparr>) fref 0 (uninit_pixelFormat e)
           = Some \<lparr>ll_result = DONE, ll_pixelFormat = cache_fmt c,
                   ll_tex = tex\<lparr>fmt := R8G8B8A8_UNORM\<rparr>, ll_closed = True\<rparr>"
      using one [of "tex\<lparr>fmt := R8G8B8A8_UNORM\<rparr>"] assms(1,2) h(1) by simp
    then show ?thesis
      using assms(1,2) h n by (simp add: Prepare_def Prepare_finish_def)
  qed
  show ?thesis
  proof (intro conjI impI)
    show "LoadLevelData e tex fref mipLevel pf
           = Some \<lparr>ll_result = DONE, ll_pixelFormat = cache_fmt c, ll_tex = tex,
                   ll_closed = True\<rparr>"
      using one assms(1,2) by simp
    assume "mipLevel = 0 \<and> levels tex = [] \<and> state tex \<noteq> CANCEL_INIT \<and> filenames d \<noteq> [] \<and>
          filenames d ! 0 \<noteq> [] \<and> GetFile (vfs e) (filenames d ! 0) = Some fref \<and>
          0 < MAX_REPLACEMENT_MIP_LEVELS e"
    then show "Prepare e tex
              = Some (tex\<lparr>fmt := cache_fmt c, state := NOT_FOUND, levelData := None,
                          desc := None\<rparr>)"
      by (elim conjE) (rule two; assumption)
  qed
qed

theorem prepopulated_slot_DONE_then_NOT_FOUND_witness:
  "Prepare (test_env [(''a'', png_file 4 1)])
     (FinishPopulate empty_texture
        ((test_desc [''a''])\<lparr>cache := \<lparr>data = [replicate 16 0xFF], cache_fmt = R8G8B8A8_UNORM,
                                       cache_lastUsed = 0\<rparr>\<rparr>))
   = Some \<lparr>state = NOT_FOUND, desc = None, levelData = None, levels = [],
           fmt = R8G8B8A8_UNORM, alphaStatus = UNKNOWN, lastUsed = 0, threadWaitable = None,
           tex_logId = []\<rparr>"
  using prepopulated_slot_DONE_then_NOT_FOUND
          [of "FinishPopulate empty_texture
                 ((test_desc [''a''])\<lparr>cache := \<lparr>data = [replicate 16 0xFF],
                                                cache_fmt = R8G8B8A8_UNORM,
                                                cache_lastUsed = 0\<rparr>\<rparr>)"
              "(test_desc [''a''])\<lparr>cache := \<lparr>data = [replicate 16 0xFF],
                                             cache_fmt = R8G8B8A8_UNORM, cache_lastUsed = 0\<rparr>\<rparr>"
              "\<lparr>data = [replicate 16 0xFF], cache_fmt = R8G8B8A8_UNORM, cache_lastUsed = 0\<rparr>"
              "test_env [(''a'', png_file 4 1)]" 0 "png_file 4 1" 0 UNDEFINED]
  by (simp add: test_env_def test_vfs_def test_desc_def FinishPopulate_def empty_texture_def)

section \<open>Copying a level out\<close>









end
